theory Spec2Isabelle
  imports Main
begin

section \<open>JavaScript values\<close>

text \<open>
  The plugin is TypeScript; at run time its settings are a plain JavaScript object whose
  properties hold arbitrary values (the persisted blob is typed \<open>any\<close>). A value is a
  primitive or a plain object as \<open>JSON.parse\<close> makes it: its own properties in a list,
  each name once, its prototype \<open>Object.prototype\<close>. A number \<open>JNum n\<close> is the safe
  integer \<open>n\<close>.
\<close>

datatype jsval =
    JUndefined
  | JNull
  | JBool bool
  | JNum int
  | JStr string
  | JObj "(string \<times> jsval) list"

text \<open>JavaScript truthiness, as used by \<open>c ? a : b\<close> and \<open>if (c)\<close>.\<close>

fun truthy :: "jsval \<Rightarrow> bool" where
  "truthy JUndefined = False"
| "truthy JNull = False"
| "truthy (JBool b) = b"
| "truthy (JNum n) = (n \<noteq> 0)"
| "truthy (JStr s) = (s \<noteq> [])"
| "truthy (JObj ps) = True"

section \<open>Strings\<close>

text \<open>
  \<open>s.split(sep)\<close> for a separator of one character (the source splits at \<open>","\<close> and at
  \<open>"/"\<close>): the pieces between the separators, so that the empty string gives one empty
  piece. \<open>parts.join(sep)\<close> puts the separator between the pieces.
\<close>

fun split_on :: "char \<Rightarrow> string \<Rightarrow> string list" where
  "split_on c [] = [[]]"
| "split_on c (x # xs) =
     (if x = c then [] # split_on c xs
      else (case split_on c xs of
              [] \<Rightarrow> [[x]]
            | piece # pieces \<Rightarrow> (x # piece) # pieces))"

fun join :: "string \<Rightarrow> string list \<Rightarrow> string" where
  "join sep [] = []"
| "join sep [piece] = piece"
| "join sep (piece # pieces) = piece @ sep @ join sep pieces"

text \<open>\<open>parts[i]\<close>: \<open>undefined\<close> (here \<open>None\<close>) beyond the end.\<close>

definition at_index :: "'a list \<Rightarrow> nat \<Rightarrow> 'a option" where
  "at_index xs i = (if i < length xs then Some (xs ! i) else None)"

text \<open>A number inside a template literal: its decimal digits.\<close>

definition digit :: "nat \<Rightarrow> char" where
  "digit d = ''0123456789'' ! d"

fun decimal :: "nat \<Rightarrow> string" where
  "decimal n = (if n < 10 then [digit n] else decimal (n div 10) @ [digit (n mod 10)])"

declare decimal.simps [simp del]

section \<open>Thrown values\<close>

text \<open>
  A promise can be rejected with any value, and \<open>catch (error)\<close> binds whatever was
  thrown: an \<open>Error\<close> object, kept as its \<open>message\<close>, or any other value. The result of
  an \<open>async\<close> function is the outcome of its promise: \<open>Inl\<close> a rejection, \<open>Inr\<close> the value
  it resolves to.
\<close>

datatype js_error =
    Error string
  | Thrown jsval

text \<open>
  \<open>error.message\<close>: the message of an \<open>Error\<close>; a \<open>TypeError\<close> when \<open>error\<close> is \<open>null\<close> or
  \<open>undefined\<close>; the own property \<open>message\<close> of a plain object; \<open>undefined\<close> where there
  is no such property, as on a string, a number or a boolean.
\<close>

fun read_message :: "js_error \<Rightarrow> js_error + jsval" where
  "read_message (Error m) = Inr (JStr m)"
| "read_message (Thrown JUndefined) = Inl (Error ''Cannot read properties of undefined'')"
| "read_message (Thrown JNull) = Inl (Error ''Cannot read properties of null'')"
| "read_message (Thrown (JObj ps)) =
     Inr (case map_of ps ''message'' of None \<Rightarrow> JUndefined | Some v \<Rightarrow> v)"
| "read_message (Thrown v) = Inr JUndefined"

text \<open>
  A value inside a template literal is converted to a string. A plain object becomes
  \<open>[object Object]\<close> through the \<open>toString\<close> it inherits; when it has an own property
  \<open>toString\<close> (which is no function, a value of \<open>jsval\<close> never is), neither that nor
  \<open>valueOf\<close> gives a primitive and the conversion throws a \<open>TypeError\<close>.
\<close>

fun to_string :: "jsval \<Rightarrow> js_error + string" where
  "to_string JUndefined = Inr ''undefined''"
| "to_string JNull = Inr ''null''"
| "to_string (JBool b) = Inr (if b then ''true'' else ''false'')"
| "to_string (JNum n) = Inr (if n < 0 then CHR ''-'' # decimal (nat (- n)) else decimal (nat n))"
| "to_string (JStr s) = Inr s"
| "to_string (JObj ps) =
     (if map_of ps ''toString'' = None then Inr ''[object Object]''
      else Inl (Error ''Cannot convert object to primitive value''))"

section \<open>Objects\<close>

text \<open>
  An object has own properties and a prototype: \<open>Object.prototype\<close> for an object
  literal and for what \<open>JSON.parse\<close> returns, until an assignment to \<open>__proto__\<close>
  replaces it by \<open>null\<close> or by another plain object.
\<close>

datatype prototype =
    Object_prototype
  | Null_prototype
  | Prototype "(string \<times> jsval) list"

type_synonym props = "string \<rightharpoonup> jsval"

record jsobject =
  own :: props
  proto :: prototype

text \<open>An object literal \<open>{ ... }\<close> with the given properties.\<close>

definition object_literal :: "props \<Rightarrow> jsobject" where
  "object_literal ps = \<lparr>own = ps, proto = Object_prototype\<rparr>"

text \<open>
  Reading a property \<open>obj.k\<close>: the own property, else the property of the prototype,
  else \<open>undefined\<close>. This is for the names the plugin reads, none of which
  \<open>Object.prototype\<close> defines.
\<close>

definition get_prop :: "jsobject \<Rightarrow> string \<Rightarrow> jsval" where
  "get_prop obj k =
     (case own obj k of
        Some v \<Rightarrow> v
      | None \<Rightarrow>
          (case proto obj of
             Prototype ps \<Rightarrow> (case map_of ps k of None \<Rightarrow> JUndefined | Some v \<Rightarrow> v)
           | Object_prototype \<Rightarrow> JUndefined
           | Null_prototype \<Rightarrow> JUndefined))"

text \<open>
  Writing a property \<open>obj[k] = v\<close>. The objects here hold data properties only, so the
  assignment makes or overwrites an own property, with one exception: \<open>Object.prototype\<close>
  has the accessor \<open>__proto__\<close>. An assignment to \<open>__proto__\<close> reaches its setter when the
  object has no own property of that name and inherits from \<open>Object.prototype\<close> without
  a property of that name in between; the setter makes \<open>v\<close> the prototype when \<open>v\<close> is an
  object or \<open>null\<close>, does nothing otherwise, and never makes an own property.
\<close>

definition has_proto_setter :: "jsobject \<Rightarrow> bool" where
  "has_proto_setter obj =
     (own obj ''__proto__'' = None \<and>
      (case proto obj of
         Object_prototype \<Rightarrow> True
       | Null_prototype \<Rightarrow> False
       | Prototype ps \<Rightarrow> map_of ps ''__proto__'' = None))"

definition set_prop :: "jsobject \<Rightarrow> string \<Rightarrow> jsval \<Rightarrow> jsobject" where
  "set_prop obj k v =
     (if k = ''__proto__'' \<and> has_proto_setter obj
      then (case v of
              JObj ps \<Rightarrow> obj\<lparr>proto := Prototype ps\<rparr>
            | JNull \<Rightarrow> obj\<lparr>proto := Null_prototype\<rparr>
            | _ \<Rightarrow> obj)
      else obj\<lparr>own := (own obj)(k \<mapsto> v)\<rparr>)"

text \<open>
  One source of \<open>Object.assign\<close>: every own property of the source is assigned to the
  target, \<open>target[k] = source[k]\<close>. Assignments to different names do not depend on each
  other, so the order of the names plays no role: the names other than \<open>__proto__\<close>
  become own properties of the target, and \<open>__proto__\<close>, if the source has it, is
  assigned as above.
\<close>

definition assign_own :: "jsobject \<Rightarrow> props \<Rightarrow> jsobject" where
  "assign_own target src =
     (let others = target\<lparr>own :=
            (\<lambda>k. if k = ''__proto__'' then own target k
                 else (case src k of None \<Rightarrow> own target k | Some v \<Rightarrow> Some v))\<rparr>
      in case src ''__proto__'' of
           None \<Rightarrow> others
         | Some v \<Rightarrow> set_prop others ''__proto__'' v)"

text \<open>
  \<open>Object.assign(target, ...sources)\<close>: the sources are assigned in order, a later one
  overwriting an earlier one; a source that is \<open>null\<close> or \<open>undefined\<close> (\<open>None\<close> here) is
  skipped; a source is given by its own properties. Property values are copied as they
  are, nested objects included.
\<close>

fun object_assign :: "jsobject \<Rightarrow> props option list \<Rightarrow> jsobject" where
  "object_assign target [] = target"
| "object_assign target (None # sources) = object_assign target sources"
| "object_assign target (Some src # sources) = object_assign (assign_own target src) sources"

section \<open>The settings\<close>

text \<open>The interface \<open>PluginSettings\<close> of \<open>main.ts\<close>.\<close>

record PluginSettings =
  width :: string
  minHeight :: string
  backgroundColor :: string
  textColor :: string
  fontSize :: string
  fontFamily :: string
  useLinearGradient :: bool
  linearGradient :: string

definition DEFAULT_SETTINGS :: PluginSettings where
  "DEFAULT_SETTINGS = \<lparr>
     width = ''800px'',
     minHeight = ''200px'',
     backgroundColor = ''#333333'',
     textColor = ''#ffffff'',
     fontSize = ''32px'',
     fontFamily = ''Arial, sans-serif'',
     useLinearGradient = True,
     linearGradient =
       ''linear-gradient(90deg, rgba(215,199,25,0.9317926999901524) 9%, rgba(62,253,29,1) 40%, rgba(252,73,69,1) 100%)''
   \<rparr>"

text \<open>The run-time object of a value of the interface: one property per field.\<close>

definition object_of :: "PluginSettings \<Rightarrow> jsobject" where
  "object_of s = object_literal [
     ''width'' \<mapsto> JStr (width s),
     ''minHeight'' \<mapsto> JStr (minHeight s),
     ''backgroundColor'' \<mapsto> JStr (backgroundColor s),
     ''textColor'' \<mapsto> JStr (textColor s),
     ''fontSize'' \<mapsto> JStr (fontSize s),
     ''fontFamily'' \<mapsto> JStr (fontFamily s),
     ''useLinearGradient'' \<mapsto> JBool (useLinearGradient s),
     ''linearGradient'' \<mapsto> JStr (linearGradient s)]"

section \<open>The style of a card\<close>

text \<open>
  The object literal \<open>styles\<close> of \<open>createPngFromText\<close>, read off the settings object.
\<close>

definition styles :: "jsobject \<Rightarrow> jsobject" where
  "styles this_settings = object_literal [
     ''width'' \<mapsto> get_prop this_settings ''width'',
     ''minHeight'' \<mapsto> get_prop this_settings ''minHeight'',
     ''background'' \<mapsto>
        (if truthy (get_prop this_settings ''useLinearGradient'')
         then get_prop this_settings ''linearGradient''
         else get_prop this_settings ''backgroundColor''),
     ''color'' \<mapsto> get_prop this_settings ''textColor'',
     ''display'' \<mapsto> JStr ''flex'',
     ''alignItems'' \<mapsto> JStr ''center'',
     ''justifyContent'' \<mapsto> JStr ''center'',
     ''textAlign'' \<mapsto> JStr ''center'',
     ''fontSize'' \<mapsto> get_prop this_settings ''fontSize'',
     ''fontFamily'' \<mapsto> get_prop this_settings ''fontFamily'']"


section \<open>The state of the running plugin\<close>

type_synonym addr = nat

text \<open>
  A DOM element: \<open>node\<close> is its identity (two elements made by two calls of
  \<open>document.createElement\<close> are different nodes, also when they look the same).
\<close>

record HTMLElement =
  node :: nat
  tagName :: string
  style :: jsobject
  innerText :: string

text \<open>The payload handed to the adapter: \<open>Buffer.from(base64Data, "base64")\<close>.\<close>

datatype Buffer = Buffer_from_base64 string

text \<open>The calls made on the vault's adapter, recorded in the order they are made.\<close>

datatype adapter_call =
    Exists string
  | Mkdir string
  | WriteBinary string Buffer

text \<open>
  Everything the plugin reads and writes: the object store (objects are referred to by
  address, so that two references to one object are visible as such), the field
  \<open>this.settings\<close>, the notices shown so far, the children of \<open>document.body\<close>, the state
  behind the file-system adapter with the calls made on it, and the rejected promises
  that no handler takes.
\<close>

record 'fs world =
  heap :: "jsobject list"
  settings :: "addr option"
  notices :: "string list"
  body :: "HTMLElement list"
  nodes :: nat
  fs :: 'fs
  calls :: "adapter_call list"
  unhandled :: "js_error list"

definition deref :: "'fs world \<Rightarrow> addr \<Rightarrow> jsobject option" where
  "deref w a = (if a < length (heap w) then Some (heap w ! a) else None)"

text \<open>An object literal allocates a new object.\<close>

definition new_object :: "jsobject \<Rightarrow> 'fs world \<Rightarrow> addr \<times> 'fs world" where
  "new_object obj w = (length (heap w), w\<lparr>heap := heap w @ [obj]\<rparr>)"

text \<open>\<open>Object.assign\<close> writes into the object its first argument refers to.\<close>

definition Object_assign :: "addr \<Rightarrow> props option list \<Rightarrow> 'fs world \<Rightarrow> 'fs world" where
  "Object_assign target sources w =
     (case deref w target of
        None \<Rightarrow> w
      | Some obj \<Rightarrow> w\<lparr>heap := (heap w)[target := object_assign obj sources]\<rparr>)"

text \<open>
  The module constant \<open>DEFAULT_SETTINGS\<close> is the first object allocated; the plugin starts
  with \<open>this.settings\<close> unassigned.
\<close>

definition DEFAULT_SETTINGS_ref :: addr where
  "DEFAULT_SETTINGS_ref = 0"

definition module_init :: "'fs \<Rightarrow> 'fs world" where
  "module_init files = \<lparr>
     heap = [object_of DEFAULT_SETTINGS],
     settings = None,
     notices = [],
     body = [],
     nodes = 0,
     fs = files,
     calls = [],
     unhandled = [] \<rparr>"

text \<open>The object \<open>this.settings\<close> refers to.\<close>

definition current_settings :: "'fs world \<Rightarrow> jsobject option" where
  "current_settings w = (case settings w of None \<Rightarrow> None | Some a \<Rightarrow> deref w a)"

text \<open>
  \<open>loadSettings\<close>: the arguments of \<open>Object.assign\<close> are evaluated from the left, so the
  empty object exists before \<open>this.loadData()\<close> settles. The argument \<open>loadData\<close> is the
  outcome of that call: a rejection, or the persisted blob (\<open>None\<close> when nothing has been
  saved yet and the host answers \<open>null\<close>).
\<close>

definition loadSettings ::
  "js_error + props option \<Rightarrow> 'fs world \<Rightarrow> (js_error + unit) \<times> 'fs world" where
  "loadSettings loadData w =
     (let (target, w1) = new_object (object_literal Map.empty) w in
      case loadData of
        Inl err \<Rightarrow> (Inl err, w1)
      | Inr blob \<Rightarrow>
          (let w2 = Object_assign target
                      [map_option own (deref w1 DEFAULT_SETTINGS_ref), blob] w1
           in (Inr (), w2\<lparr>settings := Some target\<rparr>)))"

text \<open>The properties of a blob; the \<open>null\<close> blob has none.\<close>

definition own_props :: "props option \<Rightarrow> props" where
  "own_props blob = (case blob of None \<Rightarrow> Map.empty | Some b \<Rightarrow> b)"


section \<open>The host\<close>

text \<open>
  The vault's \<open>DataAdapter\<close>, as far as the plugin uses it. Each operation works on the
  state \<open>'fs\<close> behind the adapter and either rejects or resolves.
\<close>

record 'fs DataAdapter =
  exists :: "string \<Rightarrow> 'fs \<Rightarrow> (js_error + bool) \<times> 'fs"
  mkdir :: "string \<Rightarrow> 'fs \<Rightarrow> (js_error + unit) \<times> 'fs"
  writeBinary :: "string \<Rightarrow> Buffer \<Rightarrow> 'fs \<Rightarrow> (js_error + unit) \<times> 'fs"

datatype MarkdownView = MarkdownView (getSelection: string)

datatype HTMLCanvasElement = Canvas (toDataURL: "string \<Rightarrow> string")

text \<open>
  What the host and the libraries answer during one invocation of the command: the
  adapter, Obsidian's \<open>normalizePath\<close>, the active Markdown view if there is one, the
  outcome of \<open>html2canvas\<close> on an element, and the clock read by \<open>Date.now()\<close>.
\<close>

record 'fs env =
  adapter :: "'fs DataAdapter"
  normalizePath :: "string \<Rightarrow> string"
  getActiveViewOfType :: "MarkdownView option"
  html2canvas :: "HTMLElement \<Rightarrow> js_error + HTMLCanvasElement"
  Date_now :: nat

section \<open>Sequencing\<close>

text \<open>
  \<open>await\<close> in sequence: a rejection ends the sequence. \<open>try_catch\<close> runs the handler on a
  rejection of the block. \<open>detached\<close> is a promise that nobody awaits: the caller goes on,
  and a rejection is left unhandled.
\<close>

definition resolve :: "'a \<Rightarrow> 'w \<Rightarrow> (js_error + 'a) \<times> 'w" where
  "resolve v w = (Inr v, w)"

definition and_then ::
  "('w \<Rightarrow> (js_error + 'a) \<times> 'w) \<Rightarrow> ('a \<Rightarrow> 'w \<Rightarrow> (js_error + 'b) \<times> 'w)
    \<Rightarrow> 'w \<Rightarrow> (js_error + 'b) \<times> 'w" where
  "and_then m f w =
     (case m w of
        (Inl err, w') \<Rightarrow> (Inl err, w')
      | (Inr v, w') \<Rightarrow> f v w')"

definition try_catch ::
  "('w \<Rightarrow> (js_error + 'a) \<times> 'w) \<Rightarrow> (js_error \<Rightarrow> 'w \<Rightarrow> (js_error + 'a) \<times> 'w)
    \<Rightarrow> 'w \<Rightarrow> (js_error + 'a) \<times> 'w" where
  "try_catch block handler w =
     (case block w of
        (Inl err, w') \<Rightarrow> handler err w'
      | (Inr v, w') \<Rightarrow> (Inr v, w'))"

definition detached :: "('fs world \<Rightarrow> (js_error + 'a) \<times> 'fs world) \<Rightarrow> 'fs world \<Rightarrow> 'fs world" where
  "detached m w =
     (case m w of
        (Inl err, w') \<Rightarrow> w'\<lparr>unhandled := unhandled w' @ [err]\<rparr>
      | (Inr v, w') \<Rightarrow> w')"

section \<open>Notices, the document, the adapter\<close>

definition Notice :: "string \<Rightarrow> 'fs world \<Rightarrow> 'fs world" where
  "Notice msg w = w\<lparr>notices := notices w @ [msg]\<rparr>"

definition createElement :: "string \<Rightarrow> 'fs world \<Rightarrow> HTMLElement \<times> 'fs world" where
  "createElement tag w =
     (\<lparr>node = nodes w, tagName = tag, style = object_literal Map.empty, innerText = []\<rparr>,
      w\<lparr>nodes := nodes w + 1\<rparr>)"

definition appendChild :: "HTMLElement \<Rightarrow> 'fs world \<Rightarrow> 'fs world" where
  "appendChild child w = w\<lparr>body := body w @ [child]\<rparr>"

text \<open>\<open>removeChild\<close> throws when the node is not a child of \<open>document.body\<close>.\<close>

definition removeChild :: "HTMLElement \<Rightarrow> 'fs world \<Rightarrow> (js_error + unit) \<times> 'fs world" where
  "removeChild child w =
     (if node child \<in> set (map node (body w))
      then (Inr (), w\<lparr>body := filter (\<lambda>x. node x \<noteq> node child) (body w)\<rparr>)
      else (Inl (Error ''The node to be removed is not a child of this node''), w))"

definition adapter_exists :: "'fs env \<Rightarrow> string \<Rightarrow> 'fs world \<Rightarrow> (js_error + bool) \<times> 'fs world" where
  "adapter_exists e path w =
     (let (r, files) = exists (adapter e) path (fs w)
      in (r, w\<lparr>fs := files, calls := calls w @ [Exists path]\<rparr>))"

definition adapter_mkdir :: "'fs env \<Rightarrow> string \<Rightarrow> 'fs world \<Rightarrow> (js_error + unit) \<times> 'fs world" where
  "adapter_mkdir e path w =
     (let (r, files) = mkdir (adapter e) path (fs w)
      in (r, w\<lparr>fs := files, calls := calls w @ [Mkdir path]\<rparr>))"

definition adapter_writeBinary ::
  "'fs env \<Rightarrow> string \<Rightarrow> Buffer \<Rightarrow> 'fs world \<Rightarrow> (js_error + unit) \<times> 'fs world" where
  "adapter_writeBinary e path buffer w =
     (let (r, files) = writeBinary (adapter e) path buffer (fs w)
      in (r, w\<lparr>fs := files, calls := calls w @ [WriteBinary path buffer]\<rparr>))"

text \<open>\<open>Buffer.from(x, "base64")\<close> throws a \<open>TypeError\<close> when \<open>x\<close> is \<open>undefined\<close>.\<close>

definition Buffer_from :: "string option \<Rightarrow> 'w \<Rightarrow> (js_error + Buffer) \<times> 'w" where
  "Buffer_from base64Data w =
     (case base64Data of
        None \<Rightarrow> (Inl (Error ''The first argument must be of type string''), w)
      | Some s \<Rightarrow> (Inr (Buffer_from_base64 s), w))"

section \<open>The plugin\<close>

text \<open>The directory of a path: \<open>path.split("/").slice(0, -1).join("/")\<close>.\<close>

definition dir_of :: "string \<Rightarrow> string" where
  "dir_of path = join ''/'' (butlast (split_on CHR ''/'' path))"

text \<open>The body of the \<open>try\<close> block of \<open>savePngToVault\<close>.\<close>

definition savePngToVault_try ::
  "'fs env \<Rightarrow> string \<Rightarrow> Buffer \<Rightarrow> 'fs world \<Rightarrow> (js_error + unit) \<times> 'fs world" where
  "savePngToVault_try e filePath buffer =
     (let normalizedPath = normalizePath e filePath;
          dir = dir_of normalizedPath
      in and_then (adapter_exists e dir) (\<lambda>present.
         and_then (if \<not> present then adapter_mkdir e dir else resolve ()) (\<lambda>_.
         adapter_writeBinary e normalizedPath buffer)))"

text \<open>The text of the notice in the handler: \<open>`Failed to save PNG: ${error.message}`\<close>.\<close>

definition failure_notice :: "js_error \<Rightarrow> js_error + string" where
  "failure_notice error =
     (case read_message error of
        Inl thrown \<Rightarrow> Inl thrown
      | Inr msg \<Rightarrow>
          (case to_string msg of
             Inl thrown \<Rightarrow> Inl thrown
           | Inr text \<Rightarrow> Inr (''Failed to save PNG: '' @ text)))"

definition savePngToVault ::
  "'fs env \<Rightarrow> string \<Rightarrow> Buffer \<Rightarrow> 'fs world \<Rightarrow> (js_error + unit) \<times> 'fs world" where
  "savePngToVault e filePath buffer =
     try_catch (savePngToVault_try e filePath buffer)
       (\<lambda>error. and_then (Pair (failure_notice error))
          (\<lambda>text w. (Inr (), Notice text w)))"

text \<open>The callback given to \<open>html2canvas(div).then\<close>.\<close>

definition on_canvas ::
  "'fs env \<Rightarrow> HTMLElement \<Rightarrow> HTMLCanvasElement \<Rightarrow> 'fs world \<Rightarrow> (js_error + unit) \<times> 'fs world" where
  "on_canvas e div_el canvas =
     (let dataUrl = toDataURL canvas ''image/png'';
          base64Data = at_index (split_on CHR '','' dataUrl) 1
      in and_then (Buffer_from base64Data) (\<lambda>buffer.
         let fileName = ''memo-'' @ decimal (Date_now e) @ ''.png'';
             filePath = normalizePath e (''memos/'' @ fileName)
         in and_then (savePngToVault e filePath buffer) (\<lambda>_.
            and_then (\<lambda>w. (Inr (), Notice (''PNG memo saved to '' @ filePath) w)) (\<lambda>_.
            removeChild div_el))))"

text \<open>
  \<open>createPngFromText\<close>. Reading a property of \<open>this.settings\<close> throws while the field is
  unassigned. The promise of \<open>html2canvas(div).then(...)\<close> is neither awaited nor
  returned, and it has no rejection handler.
\<close>

definition createPngFromText ::
  "'fs env \<Rightarrow> string \<Rightarrow> 'fs world \<Rightarrow> (js_error + unit) \<times> 'fs world" where
  "createPngFromText e text w =
     (let (div0, w1) = createElement ''div'' w in
      case current_settings w1 of
        None \<Rightarrow> (Inl (Error ''Cannot read properties of undefined''), w1)
      | Some this_settings \<Rightarrow>
          (let div_el = div0\<lparr>style := object_assign (style div0) [Some (own (styles this_settings))],
                         innerText := text\<rparr>;
               w2 = appendChild div_el w1
           in (Inr (),
               detached
                 (case html2canvas e div_el of
                    Inl err \<Rightarrow> (\<lambda>w. (Inl err, w))
                  | Inr canvas \<Rightarrow> on_canvas e div_el canvas)
                 w2)))"

text \<open>
  \<open>generatePngMemo\<close>, the callback of the command. The call of \<open>createPngFromText\<close> is
  not awaited.
\<close>

definition generatePngMemo :: "'fs env \<Rightarrow> 'fs world \<Rightarrow> (js_error + unit) \<times> 'fs world" where
  "generatePngMemo e w =
     (case getActiveViewOfType e of
        None \<Rightarrow> (Inr (), Notice ''No active Markdown view found'' w)
      | Some mdView \<Rightarrow>
          (let selectedText = getSelection mdView in
           if selectedText \<noteq> []
           then (Inr (), detached (createPngFromText e selectedText) w)
           else (Inr (), Notice ''No text selected'' w)))"

section \<open>A host to run the plugin on\<close>

text \<open>
  An adapter over the list of the paths that exist, and two adapters that fail: one
  whose disk is full, one that may not create directories.
\<close>

definition memory_adapter :: "string list DataAdapter" where
  "memory_adapter = \<lparr>
     exists = (\<lambda>path paths. (Inr (path \<in> set paths), paths)),
     mkdir = (\<lambda>path paths. (Inr (), paths @ [path])),
     writeBinary = (\<lambda>path buffer paths. (Inr (), paths @ [path])) \<rparr>"

definition full_disk_adapter :: "string list DataAdapter" where
  "full_disk_adapter =
     memory_adapter\<lparr>writeBinary :=
       (\<lambda>path buffer paths. (Inl (Error ''ENOSPC: no space left on device''), paths))\<rparr>"

definition read_only_adapter :: "string list DataAdapter" where
  "read_only_adapter =
     full_disk_adapter\<lparr>mkdir :=
       (\<lambda>path paths. (Inl (Error ''EACCES: permission denied''), paths))\<rparr>"

text \<open>An adapter whose \<open>exists\<close> rejects with \<open>undefined\<close>, as \<open>Promise.reject()\<close> does.\<close>

definition bare_rejection_adapter :: "string list DataAdapter" where
  "bare_rejection_adapter =
     memory_adapter\<lparr>exists := (\<lambda>path paths. (Inl (Thrown JUndefined), paths))\<rparr>"

definition png_canvas :: HTMLCanvasElement where
  "png_canvas = Canvas (\<lambda>mime. ''data:image/png;base64,iVBORw0KGgo='')"

definition host :: "string list DataAdapter \<Rightarrow> string list env" where
  "host a = \<lparr>
     adapter = a,
     normalizePath = (\<lambda>path. path),
     getActiveViewOfType = Some (MarkdownView ''Hello''),
     html2canvas = (\<lambda>element. Inr png_canvas),
     Date_now = 1712345678901 \<rparr>"

text \<open>The same host with a rasterizer that fails.\<close>

definition host_without_canvas :: "string list env" where
  "host_without_canvas =
     (host memory_adapter)\<lparr>html2canvas :=
       (\<lambda>element. Inl (Error ''Unable to find element in cloned iframe''))\<rparr>"

text \<open>The plugin after \<open>onload\<close> has loaded its settings and nothing was persisted.\<close>

definition loaded :: "string list \<Rightarrow> string list world" where
  "loaded paths = snd (loadSettings (Inr None) (module_init paths))"

definition saved_blob :: props where
  "saved_blob = [
     ''width'' \<mapsto> JStr ''400px'',
     ''useLinearGradient'' \<mapsto> JBool False,
     ''theme'' \<mapsto> JObj [(''name'', JStr ''dark'')]]"

text \<open>The blob of a \<open>data.json\<close> that reads \<open>{"__proto__": "x", "width": "400px"}\<close>.\<close>

definition proto_blob :: props where
  "proto_blob = [''__proto__'' \<mapsto> JStr ''x'', ''width'' \<mapsto> JStr ''400px'']"

section \<open>Properties\<close>

subsection \<open>The style\<close>

lemma get_prop_object_literal:
  "get_prop (object_literal ps) k = (case ps k of None \<Rightarrow> JUndefined | Some v \<Rightarrow> v)"
  by (simp add: get_prop_def object_literal_def split: option.split)

lemma get_prop_object_of [simp]:
  "get_prop (object_of s) ''width'' = JStr (width s)"
  "get_prop (object_of s) ''minHeight'' = JStr (minHeight s)"
  "get_prop (object_of s) ''backgroundColor'' = JStr (backgroundColor s)"
  "get_prop (object_of s) ''textColor'' = JStr (textColor s)"
  "get_prop (object_of s) ''fontSize'' = JStr (fontSize s)"
  "get_prop (object_of s) ''fontFamily'' = JStr (fontFamily s)"
  "get_prop (object_of s) ''useLinearGradient'' = JBool (useLinearGradient s)"
  "get_prop (object_of s) ''linearGradient'' = JStr (linearGradient s)"
  by (simp_all add: get_prop_object_literal object_of_def)

text \<open>
  Claim C1. For every configuration record, the resolved style's \<open>background\<close> is the
  \<open>linearGradient\<close> field when \<open>useLinearGradient\<close> is true and the \<open>backgroundColor\<close>
  field when it is false; \<open>width\<close>, \<open>minHeight\<close>, \<open>color\<close> (the \<open>textColor\<close> field),
  \<open>fontSize\<close> and \<open>fontFamily\<close> are passed through unchanged.
\<close>

theorem styles_resolved:
  "get_prop (styles (object_of s)) ''background'' =
     JStr (if useLinearGradient s then linearGradient s else backgroundColor s)
   \<and> get_prop (styles (object_of s)) ''width'' = JStr (width s)
   \<and> get_prop (styles (object_of s)) ''minHeight'' = JStr (minHeight s)
   \<and> get_prop (styles (object_of s)) ''color'' = JStr (textColor s)
   \<and> get_prop (styles (object_of s)) ''fontSize'' = JStr (fontSize s)
   \<and> get_prop (styles (object_of s)) ''fontFamily'' = JStr (fontFamily s)"
proof -
  have bg: "get_prop (styles (object_of s)) ''background'' =
      JStr (if useLinearGradient s then linearGradient s else backgroundColor s)"
    by (simp add: styles_def get_prop_object_literal)
  have rest:
    "get_prop (styles (object_of s)) ''width'' = JStr (width s)"
    "get_prop (styles (object_of s)) ''minHeight'' = JStr (minHeight s)"
    "get_prop (styles (object_of s)) ''color'' = JStr (textColor s)"
    "get_prop (styles (object_of s)) ''fontSize'' = JStr (fontSize s)"
    "get_prop (styles (object_of s)) ''fontFamily'' = JStr (fontFamily s)"
    by (simp_all add: styles_def get_prop_object_literal)
  from bg rest show ?thesis by simp
qed

subsection \<open>Assigning to an object\<close>

lemma assign_own_empty: "assign_own target Map.empty = target"
  by (rule jsobject.equality) (auto simp add: assign_own_def fun_eq_iff)

text \<open>
  What \<open>Object.assign\<close> makes of one source on an object that inherits the setter: the
  own properties, and the prototype.
\<close>

lemma own_assign_own:
  assumes "has_proto_setter target"
  shows "own (assign_own target src) k =
     (if k = ''__proto__'' then None
      else (case src k of None \<Rightarrow> own target k | Some v \<Rightarrow> Some v))"
  using assms
  by (auto simp add: assign_own_def set_prop_def has_proto_setter_def Let_def
      split: option.splits jsval.splits)

lemma proto_assign_own:
  assumes "has_proto_setter target"
  shows "proto (assign_own target src) =
     (case src ''__proto__'' of
        Some (JObj ps) \<Rightarrow> Prototype ps
      | Some JNull \<Rightarrow> Null_prototype
      | _ \<Rightarrow> proto target)"
  using assms
  by (auto simp add: assign_own_def set_prop_def has_proto_setter_def Let_def
      split: option.splits jsval.splits)

lemma assign_own_literal:
  assumes "ps ''__proto__'' = None"
  shows "assign_own (object_literal Map.empty) ps = object_literal ps"
  using assms
  by (intro jsobject.equality)
     (auto simp add: assign_own_def object_literal_def fun_eq_iff split: option.splits)

lemma assign_own_object_of:
  "assign_own (object_literal Map.empty) (own (object_of s)) = object_of s"
proof -
  have "own (object_of s) ''__proto__'' = None"
    by (simp add: object_of_def object_literal_def)
  then have "assign_own (object_literal Map.empty) (own (object_of s))
      = object_literal (own (object_of s))"
    by (rule assign_own_literal)
  then show ?thesis by (simp add: object_of_def object_literal_def)
qed

lemma assign_own_styles:
  "assign_own (object_literal Map.empty) (own (styles this_settings)) = styles this_settings"
proof -
  have "own (styles this_settings) ''__proto__'' = None"
    by (simp add: styles_def object_literal_def)
  then have "assign_own (object_literal Map.empty) (own (styles this_settings))
      = object_literal (own (styles this_settings))"
    by (rule assign_own_literal)
  then show ?thesis by (simp add: styles_def object_literal_def)
qed

text \<open>Assigning the same source again, to a new object that took over the result.\<close>

lemma assign_own_again:
  "assign_own
     (assign_own (object_literal Map.empty) (own (assign_own (object_literal Map.empty) src)))
     src
   = assign_own (object_literal Map.empty) src"
  by (intro jsobject.equality)
     (auto simp add: assign_own_def set_prop_def has_proto_setter_def object_literal_def
        fun_eq_iff Let_def
      split: option.splits jsval.splits)

subsection \<open>Loading the settings\<close>

lemma object_assign_two:
  "object_assign t [d, blob] = assign_own (assign_own t (own_props d)) (own_props blob)"
  by (cases d; cases blob) (simp_all add: own_props_def assign_own_empty)

lemma loadSettings_Inr:
  "loadSettings (Inr blob) w =
     (Inr (),
      w\<lparr>heap := heap w @
             [assign_own
                (assign_own (object_literal Map.empty)
                   (own_props (map_option own
                      (deref (w\<lparr>heap := heap w @ [object_literal Map.empty]\<rparr>)
                         DEFAULT_SETTINGS_ref))))
                (own_props blob)],
        settings := Some (length (heap w))\<rparr>)"
  by (simp add: loadSettings_def new_object_def Object_assign_def deref_def object_assign_two)

lemma loadSettings_Inl:
  "loadSettings (Inl err) w = (Inl err, w\<lparr>heap := heap w @ [object_literal Map.empty]\<rparr>)"
  by (simp add: loadSettings_def new_object_def)

lemma current_settings_load:
  "current_settings (snd (loadSettings (Inr blob) w)) =
     Some (assign_own
             (assign_own (object_literal Map.empty)
                (own_props (map_option own
                   (deref (w\<lparr>heap := heap w @ [object_literal Map.empty]\<rparr>)
                      DEFAULT_SETTINGS_ref))))
             (own_props blob))"
  by (simp add: loadSettings_Inr current_settings_def deref_def)

lemma deref_alloc:
  "deref w a = Some obj \<Longrightarrow> deref (w\<lparr>heap := heap w @ [x]\<rparr>) a = Some obj"
  by (auto simp add: deref_def nth_append split: if_splits)

lemma deref_load:
  assumes "deref w a = Some obj"
  shows "deref (snd (loadSettings loadData w)) a = Some obj"
proof (cases loadData)
  case (Inl err)
  with assms show ?thesis by (simp add: loadSettings_Inl deref_alloc)
next
  case (Inr blob)
  with assms show ?thesis
    by (auto simp add: loadSettings_Inr deref_def nth_append split: if_splits)
qed

lemma deref_module_init:
  "deref (module_init files) DEFAULT_SETTINGS_ref = Some (object_of DEFAULT_SETTINGS)"
  by (simp add: deref_def module_init_def DEFAULT_SETTINGS_ref_def)

lemma current_settings_load_defaults:
  assumes "deref w DEFAULT_SETTINGS_ref = Some (object_of DEFAULT_SETTINGS)"
  shows "current_settings (snd (loadSettings (Inr blob) w)) =
     Some (assign_own (object_of DEFAULT_SETTINGS) (own_props blob))"
proof -
  from assms have "deref (w\<lparr>heap := heap w @ [object_literal Map.empty]\<rparr>) DEFAULT_SETTINGS_ref
      = Some (object_of DEFAULT_SETTINGS)"
    by (rule deref_alloc)
  then show ?thesis
    by (simp add: current_settings_load own_props_def assign_own_object_of)
qed

lemma has_proto_setter_object_of: "has_proto_setter (object_of s)"
  by (simp add: has_proto_setter_def object_of_def object_literal_def)

text \<open>
  Claim C4, as the code has it. For every persisted blob, \<open>loadSettings\<close> resolves and
  leaves in \<open>this.settings\<close> an object in which every property of the blob other than
  \<open>__proto__\<close> holds the blob's value, whatever that value is (a nested object is taken
  over as it is), and every other property holds what \<open>DEFAULT_SETTINGS\<close> holds for it;
  properties of the blob that the interface does not know are kept. A property
  \<open>__proto__\<close> of the blob does not become a property of the object: \<open>Object.assign\<close>
  assigns it, the setter that the new object inherits takes the assignment, and the value
  becomes the prototype of the object when it is an object or \<open>null\<close> and is dropped
  otherwise. This is stated for a store in which \<open>DEFAULT_SETTINGS\<close> holds its hard-coded
  value, as it does from the start of the module on.
\<close>

theorem loadSettings_merge:
  assumes "deref w DEFAULT_SETTINGS_ref = Some (object_of DEFAULT_SETTINGS)"
  shows "fst (loadSettings (Inr blob) w) = Inr () \<and>
    (\<exists>obj. current_settings (snd (loadSettings (Inr blob) w)) = Some obj \<and>
       (\<forall>k. own obj k =
          (if k = ''__proto__'' then None
           else (case own_props blob k of
                   Some v \<Rightarrow> Some v
                 | None \<Rightarrow> own (object_of DEFAULT_SETTINGS) k))) \<and>
       proto obj =
          (case own_props blob ''__proto__'' of
             Some (JObj ps) \<Rightarrow> Prototype ps
           | Some JNull \<Rightarrow> Null_prototype
           | _ \<Rightarrow> Object_prototype))"
proof -
  let ?obj = "assign_own (object_of DEFAULT_SETTINGS) (own_props blob)"
  have cur: "current_settings (snd (loadSettings (Inr blob) w)) = Some ?obj"
    using assms by (rule current_settings_load_defaults)
  have props: "\<forall>k. own ?obj k =
      (if k = ''__proto__'' then None
       else (case own_props blob k of
               Some v \<Rightarrow> Some v
             | None \<Rightarrow> own (object_of DEFAULT_SETTINGS) k))"
    by (simp add: own_assign_own [OF has_proto_setter_object_of] split: option.split)
  have "proto (object_of DEFAULT_SETTINGS) = Object_prototype"
    by (simp add: object_of_def object_literal_def)
  then have chain: "proto ?obj =
      (case own_props blob ''__proto__'' of
         Some (JObj ps) \<Rightarrow> Prototype ps
       | Some JNull \<Rightarrow> Null_prototype
       | _ \<Rightarrow> Object_prototype)"
    by (simp add: proto_assign_own [OF has_proto_setter_object_of]
        split: option.split jsval.split)
  have "fst (loadSettings (Inr blob) w) = Inr ()"
    by (simp add: loadSettings_Inr)
  with cur props chain show ?thesis by blast
qed

theorem loadSettings_merge_witness:
  "deref (module_init ()) DEFAULT_SETTINGS_ref = Some (object_of DEFAULT_SETTINGS)
   \<and> (\<exists>obj. current_settings (snd (loadSettings (Inr (Some saved_blob)) (module_init ()))) = Some obj
        \<and> own obj ''width'' = Some (JStr ''400px'')
        \<and> own obj ''useLinearGradient'' = Some (JBool False)
        \<and> own obj ''theme'' = Some (JObj [(''name'', JStr ''dark'')])
        \<and> own obj ''fontSize'' = Some (JStr ''32px'')
        \<and> own obj ''minHeight'' = Some (JStr ''200px'')
        \<and> proto obj = Object_prototype)"
proof -
  have h: "deref (module_init ()) DEFAULT_SETTINGS_ref = Some (object_of DEFAULT_SETTINGS)"
    by (rule deref_module_init)
  from loadSettings_merge [OF h, of "Some saved_blob"]
  obtain obj where
    cur: "current_settings (snd (loadSettings (Inr (Some saved_blob)) (module_init ()))) = Some obj"
    and each: "\<And>k. own obj k =
          (if k = ''__proto__'' then None
           else (case own_props (Some saved_blob) k of
                   Some v \<Rightarrow> Some v
                 | None \<Rightarrow> own (object_of DEFAULT_SETTINGS) k))"
    and chain: "proto obj =
          (case own_props (Some saved_blob) ''__proto__'' of
             Some (JObj ps) \<Rightarrow> Prototype ps
           | Some JNull \<Rightarrow> Null_prototype
           | _ \<Rightarrow> Object_prototype)"
    by blast
  have "own obj ''width'' = Some (JStr ''400px'')"
    "own obj ''useLinearGradient'' = Some (JBool False)"
    "own obj ''theme'' = Some (JObj [(''name'', JStr ''dark'')])"
    "own obj ''fontSize'' = Some (JStr ''32px'')"
    "own obj ''minHeight'' = Some (JStr ''200px'')"
    by (simp_all add: each own_props_def saved_blob_def object_of_def object_literal_def
          DEFAULT_SETTINGS_def)
  moreover have "proto obj = Object_prototype"
    by (simp add: chain own_props_def saved_blob_def)
  ultimately show ?thesis using h cur by blast
qed

text \<open>
  The claim as it was stated, every property of the blob holding the blob's value after
  the load, fails for the blob \<open>{"__proto__": "x", "width": "400px"}\<close>: the loaded object
  has the width of the blob but no property \<open>__proto__\<close> of its own, and its prototype is
  still \<open>Object.prototype\<close>: the value \<open>"x"\<close> is lost.
\<close>

theorem loadSettings_drops_proto_key:
  "own_props (Some proto_blob) ''__proto__'' = Some (JStr ''x'')
   \<and> (\<exists>obj. current_settings (snd (loadSettings (Inr (Some proto_blob)) (module_init ()))) = Some obj
        \<and> own obj ''__proto__'' = None
        \<and> proto obj = Object_prototype
        \<and> own obj ''width'' = Some (JStr ''400px''))"
proof -
  let ?obj = "assign_own (object_of DEFAULT_SETTINGS) (own_props (Some proto_blob))"
  have "current_settings (snd (loadSettings (Inr (Some proto_blob)) (module_init ()))) = Some ?obj"
    using deref_module_init by (rule current_settings_load_defaults)
  moreover have "own ?obj ''__proto__'' = None"
    by (simp add: own_assign_own [OF has_proto_setter_object_of])
  moreover have "proto ?obj = Object_prototype"
  proof -
    have "proto ?obj = proto (object_of DEFAULT_SETTINGS)"
      by (simp add: proto_assign_own [OF has_proto_setter_object_of] own_props_def proto_blob_def)
    then show ?thesis by (simp add: object_of_def object_literal_def)
  qed
  moreover have "own ?obj ''width'' = Some (JStr ''400px'')"
    by (simp add: own_assign_own [OF has_proto_setter_object_of] own_props_def proto_blob_def)
  moreover have "own_props (Some proto_blob) ''__proto__'' = Some (JStr ''x'')"
    by (simp add: own_props_def proto_blob_def)
  ultimately show ?thesis by blast
qed

text \<open>
  Claim C7. Loading is idempotent: after loading the same blob a second time,
  \<open>this.settings\<close> holds the same properties as after loading it once.
\<close>

theorem loadSettings_idempotent:
  "current_settings (snd (loadSettings (Inr blob) (snd (loadSettings (Inr blob) w))))
     = current_settings (snd (loadSettings (Inr blob) w))
   \<and> current_settings (snd (loadSettings (Inr blob) w)) \<noteq> None"
proof (cases "heap w")
  case Nil
  then have first: "current_settings (snd (loadSettings (Inr blob) w)) =
      Some (assign_own (object_literal Map.empty) (own_props blob))"
    by (simp add: current_settings_load deref_def DEFAULT_SETTINGS_ref_def own_props_def
          object_literal_def assign_own_empty)
  from Nil have "current_settings (snd (loadSettings (Inr blob) (snd (loadSettings (Inr blob) w))))
      = Some (assign_own
                (assign_own (object_literal Map.empty)
                   (own (assign_own (object_literal Map.empty) (own_props blob))))
                (own_props blob))"
    by (simp add: current_settings_load)
       (simp add: loadSettings_Inr deref_def DEFAULT_SETTINGS_ref_def own_props_def
          object_literal_def assign_own_empty)
  with first show ?thesis by (simp add: assign_own_again)
next
  case (Cons obj objs)
  then show ?thesis
    by (simp add: current_settings_load)
       (simp add: loadSettings_Inr deref_def DEFAULT_SETTINGS_ref_def)
qed

text \<open>
  Claim C9. \<open>loadSettings\<close> never changes \<open>DEFAULT_SETTINGS\<close>: whatever
  \<open>this.loadData()\<close> answers, the object the constant refers to is the same after the
  call. The merge goes into an object that did not exist before the call, which is
  therefore not the object of \<open>DEFAULT_SETTINGS\<close>.
\<close>

theorem loadSettings_keeps_defaults:
  assumes "deref w DEFAULT_SETTINGS_ref = Some d"
  shows "deref (snd (loadSettings loadData w)) DEFAULT_SETTINGS_ref = Some d
    \<and> settings (snd (loadSettings (Inr blob) w)) = Some (length (heap w))
    \<and> deref w (length (heap w)) = None
    \<and> length (heap w) \<noteq> DEFAULT_SETTINGS_ref"
proof -
  have "deref (snd (loadSettings loadData w)) DEFAULT_SETTINGS_ref = Some d"
    using assms by (rule deref_load)
  moreover have "settings (snd (loadSettings (Inr blob) w)) = Some (length (heap w))"
    by (simp add: loadSettings_Inr)
  moreover have "deref w (length (heap w)) = None"
    by (simp add: deref_def)
  moreover from assms have "length (heap w) \<noteq> DEFAULT_SETTINGS_ref"
    by (auto simp add: deref_def split: if_splits)
  ultimately show ?thesis by simp
qed

theorem loadSettings_keeps_defaults_witness:
  "deref (module_init ()) DEFAULT_SETTINGS_ref = Some (object_of DEFAULT_SETTINGS)
   \<and> deref (snd (loadSettings (Inr (Some saved_blob)) (module_init ()))) DEFAULT_SETTINGS_ref
       = Some (object_of DEFAULT_SETTINGS)
   \<and> settings (snd (loadSettings (Inr (Some saved_blob)) (module_init ()))) = Some 1"
proof -
  have h: "deref (module_init ()) DEFAULT_SETTINGS_ref = Some (object_of DEFAULT_SETTINGS)"
    by (rule deref_module_init)
  have len: "length (heap (module_init ())) = 1"
    by (simp add: module_init_def)
  from loadSettings_keeps_defaults [OF h, of "Inr (Some saved_blob)" "Some saved_blob"] h len
  show ?thesis by simp
qed

subsection \<open>Saving\<close>

lemma notices_savePngToVault_try:
  "notices (snd (savePngToVault_try e filePath buffer w)) = notices w"
  by (simp add: savePngToVault_try_def and_then_def resolve_def adapter_exists_def
        adapter_mkdir_def adapter_writeBinary_def Let_def
      split: prod.splits sum.splits)

lemma savePngToVault_cases:
  "savePngToVault e filePath buffer w =
     (case savePngToVault_try e filePath buffer w of
        (Inl error, w') \<Rightarrow>
          (case failure_notice error of
             Inl thrown \<Rightarrow> (Inl thrown, w')
           | Inr text \<Rightarrow> (Inr (), Notice text w'))
      | (Inr ok, w') \<Rightarrow> (Inr ok, w'))"
  by (simp add: savePngToVault_def try_catch_def and_then_def split: prod.splits sum.splits)

text \<open>What the handler makes of the value it caught.\<close>

lemma failure_notice_Error: "failure_notice (Error m) = Inr (''Failed to save PNG: '' @ m)"
  by (simp add: failure_notice_def)

lemma failure_notice_nullish:
  "failure_notice (Thrown JUndefined) = Inl (Error ''Cannot read properties of undefined'')"
  "failure_notice (Thrown JNull) = Inl (Error ''Cannot read properties of null'')"
  by (simp_all add: failure_notice_def)

lemma failure_notice_primitive:
  "failure_notice (Thrown (JStr s)) = Inr ''Failed to save PNG: undefined''"
  "failure_notice (Thrown (JNum n)) = Inr ''Failed to save PNG: undefined''"
  "failure_notice (Thrown (JBool b)) = Inr ''Failed to save PNG: undefined''"
  by (simp_all add: failure_notice_def)

lemma failure_notice_throws:
  "(\<exists>thrown. failure_notice error = Inl thrown) =
     (error = Thrown JUndefined \<or> error = Thrown JNull \<or>
      (\<exists>ps qs. error = Thrown (JObj ps) \<and> map_of ps ''message'' = Some (JObj qs)
         \<and> map_of qs ''toString'' \<noteq> None))"
proof (cases error)
  case (Error m)
  then show ?thesis by (simp add: failure_notice_def)
next
  case (Thrown v)
  show ?thesis
  proof (cases v)
    case (JObj ps)
    show ?thesis
    proof (cases "map_of ps ''message''")
      case None
      with Thrown JObj show ?thesis by (simp add: failure_notice_def)
    next
      case (Some msg)
      with Thrown JObj show ?thesis
        by (cases msg) (auto simp add: failure_notice_def)
    qed
  qed (simp_all add: Thrown failure_notice_def)
qed

text \<open>
  Claim C10, as the code has it. \<open>savePngToVault\<close> hands no error of the adapter on to
  its caller as long as the handler can build the text of its notice from the value it
  caught, that is, as long as reading \<open>error.message\<close> and converting it to a string
  does not throw; this is so for every \<open>Error\<close> object. For every path, buffer,
  adapter and state with this property the call resolves; a failure of \<open>exists\<close>,
  \<open>mkdir\<close> or \<open>writeBinary\<close> becomes the one notice \<open>Failed to save PNG: <message>\<close>, and
  when none fails no notice is shown.
\<close>

theorem savePngToVault_resolves:
  assumes "\<And>error. fst (savePngToVault_try e filePath buffer w) = Inl error
             \<Longrightarrow> \<exists>text. failure_notice error = Inr text"
  shows "fst (savePngToVault e filePath buffer w) = Inr ()
   \<and> notices (snd (savePngToVault e filePath buffer w)) =
       (case fst (savePngToVault_try e filePath buffer w) of
          Inl error \<Rightarrow>
            (case failure_notice error of
               Inl thrown \<Rightarrow> notices w
             | Inr text \<Rightarrow> notices w @ [text])
        | Inr ok \<Rightarrow> notices w)"
proof (cases "savePngToVault_try e filePath buffer w")
  case (Pair r w')
  have n: "notices w' = notices w"
    using notices_savePngToVault_try [of e filePath buffer w] Pair by simp
  show ?thesis
  proof (cases r)
    case (Inl error)
    with Pair assms obtain built where "failure_notice error = Inr built"
      by fastforce
    with Pair Inl n show ?thesis
      by (simp add: savePngToVault_cases Notice_def)
  next
    case (Inr ok)
    with Pair n show ?thesis
      by (simp add: savePngToVault_cases)
  qed
qed

text \<open>The directory of the paths that \<open>createPngFromText\<close> builds.\<close>

lemma split_on_absent: "c \<notin> set xs \<Longrightarrow> split_on c xs = [xs]"
  by (induction xs) auto

lemma split_on_first:
  "c \<notin> set xs \<Longrightarrow> split_on c (xs @ c # ys) = xs # split_on c ys"
  by (induction xs) auto

lemma dir_of_one_level:
  assumes "CHR ''/'' \<notin> set d" and "CHR ''/'' \<notin> set name"
  shows "dir_of (d @ ''/'' @ name) = d"
  using assms by (simp add: dir_of_def split_on_first split_on_absent)

lemma digit_not_slash: "d < 10 \<Longrightarrow> digit d \<noteq> CHR ''/''"
proof -
  assume "d < 10"
  then have "d \<in> {0, 1, 2, 3, 4, 5, 6, 7, 8, 9}" by auto
  then show ?thesis by (auto simp add: digit_def)
qed

lemma decimal_no_slash: "CHR ''/'' \<notin> set (decimal n)"
proof (induction n rule: decimal.induct)
  case (1 n)
  show ?case
  proof (cases "n < 10")
    case True
    then show ?thesis
      using digit_not_slash [of n] by (subst decimal.simps) auto
  next
    case False
    have "n mod 10 < 10" by simp
    then have "digit (n mod 10) \<noteq> CHR ''/''" by (rule digit_not_slash)
    with False 1 show ?thesis
      by (subst decimal.simps) auto
  qed
qed

lemma dir_of_memo_path: "dir_of (''memos/memo-'' @ decimal n @ ''.png'') = ''memos''"
proof -
  have "CHR ''/'' \<notin> set (''memo-'' @ decimal n @ ''.png'')"
    using decimal_no_slash [of n] by simp
  with dir_of_one_level [of "''memos''" "''memo-'' @ decimal n @ ''.png''"]
  show ?thesis by simp
qed

lemma calls_savePngToVault:
  "calls (snd (savePngToVault e filePath buffer w)) =
     calls (snd (savePngToVault_try e filePath buffer w))"
  by (simp add: savePngToVault_cases Notice_def split: prod.splits sum.splits)

text \<open>
  Claim C8. For every save: when the adapter answers that the directory of the
  normalized path does not exist, \<open>mkdir\<close> is called on it before \<open>writeBinary\<close> (which
  is called only if \<open>mkdir\<close> resolved); when it answers that the directory exists,
  \<open>mkdir\<close> is not called. For the paths the plugin builds the directory is \<open>memos\<close>.
\<close>

theorem savePngToVault_directory:
  assumes "fst (exists (adapter e) (dir_of (normalizePath e filePath)) (fs w)) = Inr present"
  shows "calls (snd (savePngToVault e filePath buffer w)) =
     (let normalizedPath = normalizePath e filePath;
          dir = dir_of normalizedPath
      in calls w @
         (if present then [Exists dir, WriteBinary normalizedPath buffer]
          else if fst (mkdir (adapter e) dir (snd (exists (adapter e) dir (fs w)))) = Inr ()
          then [Exists dir, Mkdir dir, WriteBinary normalizedPath buffer]
          else [Exists dir, Mkdir dir]))"
  using assms
  by (auto simp add: calls_savePngToVault savePngToVault_try_def and_then_def resolve_def
        adapter_exists_def adapter_mkdir_def adapter_writeBinary_def Let_def
      split: prod.splits sum.splits)

subsection \<open>Running the plugin on the host\<close>

lemma decimal_now: "decimal 1712345678901 = ''1712345678901''"
  by (simp add: decimal.simps digit_def)

lemma dir_of_memo: "dir_of ''memos/memo-1712345678901.png'' = ''memos''"
  by (simp add: dir_of_def)

lemma split_png_url:
  "split_on CHR '','' ''data:image/png;base64,iVBORw0KGgo='' =
     [''data:image/png;base64'', ''iVBORw0KGgo='']"
  by simp

lemmas run_defs =
  generatePngMemo_def createPngFromText_def on_canvas_def savePngToVault_def
  savePngToVault_try_def failure_notice_def try_catch_def and_then_def resolve_def
  detached_def object_literal_def assign_own_def set_prop_def has_proto_setter_def
  Notice_def createElement_def appendChild_def removeChild_def
  adapter_exists_def adapter_mkdir_def adapter_writeBinary_def Buffer_from_def
  host_def png_canvas_def memory_adapter_def
  loaded_def loadSettings_def new_object_def Object_assign_def deref_def
  module_init_def DEFAULT_SETTINGS_ref_def current_settings_def
  decimal_now dir_of_memo split_png_url at_index_def Let_def

theorem savePngToVault_directory_witness:
  "calls (snd (savePngToVault (host memory_adapter) ''memos/memo-1712345678901.png''
                 (Buffer_from_base64 ''iVBORw0KGgo='') (loaded []))) =
     [Exists ''memos'', Mkdir ''memos'',
      WriteBinary ''memos/memo-1712345678901.png'' (Buffer_from_base64 ''iVBORw0KGgo='')]
   \<and> calls (snd (savePngToVault (host memory_adapter) ''memos/memo-1712345678901.png''
                 (Buffer_from_base64 ''iVBORw0KGgo='') (loaded [''memos'']))) =
     [Exists ''memos'',
      WriteBinary ''memos/memo-1712345678901.png'' (Buffer_from_base64 ''iVBORw0KGgo='')]"
proof -
  have absent: "fst (exists (adapter (host memory_adapter))
      (dir_of (normalizePath (host memory_adapter) ''memos/memo-1712345678901.png''))
      (fs (loaded []))) = Inr False"
    by (simp add: run_defs)
  have present: "fst (exists (adapter (host memory_adapter))
      (dir_of (normalizePath (host memory_adapter) ''memos/memo-1712345678901.png''))
      (fs (loaded [''memos'']))) = Inr True"
    by (simp add: run_defs)
  have made: "fst (mkdir (adapter (host memory_adapter)) ''memos''
      (snd (exists (adapter (host memory_adapter)) ''memos'' (fs (loaded []))))) = Inr ()"
    by (simp add: run_defs)
  have path: "normalizePath (host memory_adapter) ''memos/memo-1712345678901.png''
      = ''memos/memo-1712345678901.png''"
    by (simp add: host_def)
  have c0: "calls (loaded []) = []" "calls (loaded [''memos'']) = []"
    by (simp_all add: run_defs)
  from savePngToVault_directory [OF absent, of "Buffer_from_base64 ''iVBORw0KGgo=''"]
       savePngToVault_directory [OF present, of "Buffer_from_base64 ''iVBORw0KGgo=''"]
  show ?thesis
    by (simp add: path dir_of_memo made c0 Let_def)
qed

theorem savePngToVault_resolves_witness:
  "fst (savePngToVault_try (host full_disk_adapter) ''memos/memo-1712345678901.png''
          (Buffer_from_base64 ''iVBORw0KGgo='') (loaded []))
     = Inl (Error ''ENOSPC: no space left on device'')
   \<and> failure_notice (Error ''ENOSPC: no space left on device'')
     = Inr ''Failed to save PNG: ENOSPC: no space left on device''
   \<and> fst (savePngToVault (host full_disk_adapter) ''memos/memo-1712345678901.png''
          (Buffer_from_base64 ''iVBORw0KGgo='') (loaded [])) = Inr ()
   \<and> notices (snd (savePngToVault (host full_disk_adapter) ''memos/memo-1712345678901.png''
          (Buffer_from_base64 ''iVBORw0KGgo='') (loaded [])))
     = [''Failed to save PNG: ENOSPC: no space left on device'']"
proof -
  let ?block = "savePngToVault_try (host full_disk_adapter) ''memos/memo-1712345678901.png''
          (Buffer_from_base64 ''iVBORw0KGgo='') (loaded [])"
  have fails: "fst ?block = Inl (Error ''ENOSPC: no space left on device'')"
    by (simp add: run_defs full_disk_adapter_def)
  have built: "failure_notice (Error ''ENOSPC: no space left on device'')
      = Inr ''Failed to save PNG: ENOSPC: no space left on device''"
    by (simp add: failure_notice_Error)
  have reportable: "\<exists>built. failure_notice error = Inr built" if "fst ?block = Inl error" for error
    using that fails built by auto
  have w0: "notices (loaded []) = []"
    by (simp add: run_defs)
  from savePngToVault_resolves [of "host full_disk_adapter" "''memos/memo-1712345678901.png''"
      "Buffer_from_base64 ''iVBORw0KGgo=''" "loaded []", OF reportable]
    fails built w0
  show ?thesis by simp
qed

text \<open>
  The claim as it was stated, no error for any behaviour of the adapter, fails when the
  adapter rejects with \<open>undefined\<close>: reading \<open>error.message\<close> throws inside the handler,
  \<open>savePngToVault\<close> rejects with that \<open>TypeError\<close>, and no notice is shown.
\<close>

theorem savePngToVault_rejects_on_undefined:
  "fst (savePngToVault (host bare_rejection_adapter) ''memos/memo-1712345678901.png''
          (Buffer_from_base64 ''iVBORw0KGgo='') (loaded []))
     = Inl (Error ''Cannot read properties of undefined'')
   \<and> notices (snd (savePngToVault (host bare_rejection_adapter) ''memos/memo-1712345678901.png''
          (Buffer_from_base64 ''iVBORw0KGgo='') (loaded []))) = []"
proof -
  have "fst (savePngToVault (host bare_rejection_adapter) ''memos/memo-1712345678901.png''
          (Buffer_from_base64 ''iVBORw0KGgo='') (loaded []))
     = Inl (Error ''Cannot read properties of undefined'')"
    by (simp add: run_defs bare_rejection_adapter_def)
  moreover have "notices (snd (savePngToVault (host bare_rejection_adapter)
          ''memos/memo-1712345678901.png'' (Buffer_from_base64 ''iVBORw0KGgo='') (loaded []))) = []"
    by (simp add: run_defs bare_rejection_adapter_def)
  ultimately show ?thesis by simp
qed

subsection \<open>The command\<close>

text \<open>
  Claim C5. When there is no active Markdown view, the command stops before any
  rendering: the state after it is the state before it with one more notice, so no
  element is created or attached, the adapter is not called and nothing is written.
\<close>

theorem generatePngMemo_no_view:
  assumes "getActiveViewOfType e = None"
  shows "generatePngMemo e w =
     (Inr (), w\<lparr>notices := notices w @ [''No active Markdown view found'']\<rparr>)"
  using assms by (simp add: generatePngMemo_def Notice_def)

theorem generatePngMemo_no_view_witness:
  "getActiveViewOfType ((host memory_adapter)\<lparr>getActiveViewOfType := None\<rparr>) = None
   \<and> notices (snd (generatePngMemo ((host memory_adapter)\<lparr>getActiveViewOfType := None\<rparr>)
                    (loaded []))) = [''No active Markdown view found'']
   \<and> calls (snd (generatePngMemo ((host memory_adapter)\<lparr>getActiveViewOfType := None\<rparr>)
                    (loaded []))) = []
   \<and> fs (snd (generatePngMemo ((host memory_adapter)\<lparr>getActiveViewOfType := None\<rparr>)
                    (loaded []))) = []
   \<and> body (snd (generatePngMemo ((host memory_adapter)\<lparr>getActiveViewOfType := None\<rparr>)
                    (loaded []))) = []"
proof -
  have h: "getActiveViewOfType ((host memory_adapter)\<lparr>getActiveViewOfType := None\<rparr>) = None"
    by simp
  have w0: "notices (loaded []) = []" "calls (loaded []) = []" "fs (loaded []) = []"
    "body (loaded []) = []"
    by (simp_all add: run_defs)
  from generatePngMemo_no_view [OF h, of "loaded []"] h w0
  show ?thesis by simp
qed

text \<open>
  Claim C6. When the selection of the active view is empty, rendering is not attempted:
  the state after the command is the state before it with one more notice, so the adapter
  is not called and nothing is written.
\<close>

theorem generatePngMemo_no_selection:
  assumes "getActiveViewOfType e = Some mdView" and "getSelection mdView = []"
  shows "generatePngMemo e w =
     (Inr (), w\<lparr>notices := notices w @ [''No text selected'']\<rparr>)"
  using assms by (simp add: generatePngMemo_def Notice_def)

theorem generatePngMemo_no_selection_witness:
  "getSelection (MarkdownView []) = []
   \<and> notices (snd (generatePngMemo
         ((host memory_adapter)\<lparr>getActiveViewOfType := Some (MarkdownView [])\<rparr>)
         (loaded []))) = [''No text selected'']
   \<and> calls (snd (generatePngMemo
         ((host memory_adapter)\<lparr>getActiveViewOfType := Some (MarkdownView [])\<rparr>)
         (loaded []))) = []
   \<and> fs (snd (generatePngMemo
         ((host memory_adapter)\<lparr>getActiveViewOfType := Some (MarkdownView [])\<rparr>)
         (loaded []))) = []
   \<and> body (snd (generatePngMemo
         ((host memory_adapter)\<lparr>getActiveViewOfType := Some (MarkdownView [])\<rparr>)
         (loaded []))) = []"
proof -
  have v: "getActiveViewOfType
      ((host memory_adapter)\<lparr>getActiveViewOfType := Some (MarkdownView [])\<rparr>)
      = Some (MarkdownView [])"
    by simp
  have s: "getSelection (MarkdownView []) = []"
    by simp
  have w0: "notices (loaded []) = []" "calls (loaded []) = []" "fs (loaded []) = []"
    "body (loaded []) = []"
    by (simp_all add: run_defs)
  from generatePngMemo_no_selection [OF v s, of "loaded []"] s w0
  show ?thesis by simp
qed

text \<open>
  What the command does, for every host, when the rasterization is rejected and when the
  save fails after a successful rasterization.
\<close>

lemma current_settings_nodes:
  "current_settings (w\<lparr>nodes := n\<rparr>) = current_settings w"
  by (cases "settings w") (simp_all add: current_settings_def deref_def)

lemma rejected_rasterization:
  assumes view: "getActiveViewOfType e = Some mdView"
    and sel: "getSelection mdView \<noteq> []"
    and cfg: "current_settings w = Some this_settings"
    and fails: "html2canvas e
        \<lparr>node = nodes w, tagName = ''div'', style = styles this_settings,
          innerText = getSelection mdView\<rparr> = Inl err"
  shows "body (snd (generatePngMemo e w)) =
      body w @ [\<lparr>node = nodes w, tagName = ''div'', style = styles this_settings,
                 innerText = getSelection mdView\<rparr>]"
    and "unhandled (snd (generatePngMemo e w)) = unhandled w @ [err]"
proof -
  note c = current_settings_nodes cfg
  show "body (snd (generatePngMemo e w)) =
      body w @ [\<lparr>node = nodes w, tagName = ''div'', style = styles this_settings,
                 innerText = getSelection mdView\<rparr>]"
    using view sel fails
    by (simp add: generatePngMemo_def createPngFromText_def createElement_def c
          appendChild_def detached_def assign_own_styles)
  show "unhandled (snd (generatePngMemo e w)) = unhandled w @ [err]"
    using view sel fails
    by (simp add: generatePngMemo_def createPngFromText_def createElement_def c
          appendChild_def detached_def assign_own_styles)
qed

lemma notices_removeChild: "notices (snd (removeChild child w)) = notices w"
  by (simp add: removeChild_def)

lemma swallowed_save_failure:
  assumes view: "getActiveViewOfType e = Some mdView"
    and sel: "getSelection mdView \<noteq> []"
    and cfg: "current_settings w = Some this_settings"
    and el: "el = \<lparr>node = nodes w, tagName = ''div'', style = styles this_settings,
                   innerText = getSelection mdView\<rparr>"
    and canvas: "html2canvas e el = Inr canvas"
    and url: "at_index (split_on CHR '','' (toDataURL canvas ''image/png'')) 1 = Some base64Data"
    and path: "filePath = normalizePath e (''memos/memo-'' @ decimal (Date_now e) @ ''.png'')"
    and fails: "fst (savePngToVault_try e filePath (Buffer_from_base64 base64Data)
                      (w\<lparr>nodes := Suc (nodes w), body := body w @ [el]\<rparr>)) = Inl error"
    and built: "failure_notice error = Inr text"
  shows "notices (snd (generatePngMemo e w)) =
      notices w @ [text, ''PNG memo saved to '' @ filePath]"
proof -
  let ?w2 = "w\<lparr>nodes := Suc (nodes w), body := body w @ [el]\<rparr>"
  let ?buffer = "Buffer_from_base64 base64Data"
  note c = current_settings_nodes cfg
  obtain w3 where body_fails: "savePngToVault_try e filePath ?buffer ?w2 = (Inl error, w3)"
    using fails by (cases "savePngToVault_try e filePath ?buffer ?w2") simp
  have n3: "notices w3 = notices w"
    using notices_savePngToVault_try [of e filePath ?buffer ?w2] body_fails by simp
  have save: "savePngToVault e filePath ?buffer ?w2 = (Inr (), Notice text w3)"
    by (simp add: savePngToVault_cases body_fails built)
  have cb: "notices (snd (on_canvas e el canvas ?w2)) =
      notices w @ [text, ''PNG memo saved to '' @ filePath]"
    using url path [symmetric]
    by (simp add: on_canvas_def Buffer_from_def and_then_def save Let_def Notice_def n3
          notices_removeChild)
  have "snd (generatePngMemo e w) = detached (on_canvas e el canvas) ?w2"
    using view sel canvas el
    by (simp add: generatePngMemo_def createPngFromText_def createElement_def c
          appendChild_def detached_def assign_own_styles Let_def)
  with cb show ?thesis
    by (simp add: detached_def split: prod.splits sum.splits)
qed

text \<open>
  Claim C2. A failure of the file write or of the directory creation is to be caught at
  \<open>savePngToVault\<close>, not to crash the invocation, and to be shown to the user by a single
  notice that carries the message of the error. The code catches the error and shows that
  notice, but \<open>savePngToVault\<close> then resolves as it does after a successful write, and the
  callback of \<open>createPngFromText\<close> goes on to show \<open>PNG memo saved to ...\<close>: the user
  gets two notices, the second one saying that the file was saved. The runs below are one
  with a full disk (\<open>writeBinary\<close> rejects) and one without the right to create
  directories (\<open>mkdir\<close> rejects); in neither is there a file afterwards.
\<close>

theorem failed_save_is_reported_as_saved:
  "notices (snd (generatePngMemo (host full_disk_adapter) (loaded []))) =
     [''Failed to save PNG: ENOSPC: no space left on device'',
      ''PNG memo saved to memos/memo-1712345678901.png'']
   \<and> notices (snd (generatePngMemo (host read_only_adapter) (loaded []))) =
     [''Failed to save PNG: EACCES: permission denied'',
      ''PNG memo saved to memos/memo-1712345678901.png'']
   \<and> unhandled (snd (generatePngMemo (host full_disk_adapter) (loaded []))) = []
   \<and> unhandled (snd (generatePngMemo (host read_only_adapter) (loaded []))) = []
   \<and> fs (snd (generatePngMemo (host full_disk_adapter) (loaded []))) = [''memos'']
   \<and> fs (snd (generatePngMemo (host read_only_adapter) (loaded []))) = []"
proof -
  have "notices (snd (generatePngMemo (host full_disk_adapter) (loaded []))) =
     [''Failed to save PNG: ENOSPC: no space left on device'',
      ''PNG memo saved to memos/memo-1712345678901.png'']"
    by (simp add: run_defs full_disk_adapter_def read_only_adapter_def)
  moreover have "notices (snd (generatePngMemo (host read_only_adapter) (loaded []))) =
     [''Failed to save PNG: EACCES: permission denied'',
      ''PNG memo saved to memos/memo-1712345678901.png'']"
    by (simp add: run_defs full_disk_adapter_def read_only_adapter_def)
  moreover have "unhandled (snd (generatePngMemo (host full_disk_adapter) (loaded []))) = []"
    by (simp add: run_defs full_disk_adapter_def read_only_adapter_def)
  moreover have "unhandled (snd (generatePngMemo (host read_only_adapter) (loaded []))) = []"
    by (simp add: run_defs full_disk_adapter_def read_only_adapter_def)
  moreover have "fs (snd (generatePngMemo (host full_disk_adapter) (loaded []))) = [''memos'']"
    by (simp add: run_defs full_disk_adapter_def read_only_adapter_def)
  moreover have "fs (snd (generatePngMemo (host read_only_adapter) (loaded []))) = []"
    by (simp add: run_defs full_disk_adapter_def read_only_adapter_def)
  ultimately show ?thesis by simp
qed

text \<open>
  Claim C3. The element that \<open>createPngFromText\<close> attaches to \<open>document.body\<close> is to
  be removed on every path, the failure of the rasterization included. In the code
  \<open>removeChild\<close> is the last statement of the callback passed to \<open>then\<close>, and the promise
  has no rejection handler: when \<open>html2canvas\<close> rejects, the element stays in the document
  and the rejection is left unhandled. The last line is the run in which the
  rasterization succeeds, where the element is removed.
\<close>

theorem failed_rasterization_leaves_element:
  "map innerText (body (snd (generatePngMemo host_without_canvas (loaded [])))) = [''Hello'']
   \<and> map node (body (snd (generatePngMemo host_without_canvas (loaded [])))) = [0]
   \<and> unhandled (snd (generatePngMemo host_without_canvas (loaded []))) =
       [Error ''Unable to find element in cloned iframe'']
   \<and> notices (snd (generatePngMemo host_without_canvas (loaded []))) = []
   \<and> body (snd (generatePngMemo (host memory_adapter) (loaded []))) = []"
proof -
  have "map innerText (body (snd (generatePngMemo host_without_canvas (loaded []))))
      = [''Hello'']"
    by (simp add: run_defs host_without_canvas_def)
  moreover have "map node (body (snd (generatePngMemo host_without_canvas (loaded [])))) = [0]"
    by (simp add: run_defs host_without_canvas_def)
  moreover have "unhandled (snd (generatePngMemo host_without_canvas (loaded []))) =
       [Error ''Unable to find element in cloned iframe'']"
    by (simp add: run_defs host_without_canvas_def)
  moreover have "notices (snd (generatePngMemo host_without_canvas (loaded []))) = []"
    by (simp add: run_defs host_without_canvas_def)
  moreover have "body (snd (generatePngMemo (host memory_adapter) (loaded []))) = []"
    by (simp add: run_defs host_without_canvas_def)
  ultimately show ?thesis by simp
qed

end
